theory Spec2Isabelle
  imports Main "HOL-Library.AList"
begin

section \<open>Python values and exceptions\<close>

text \<open>
  The values a \<^verbatim>\<open>dict[str, object]\<close> of the analyzer carries: \<^verbatim>\<open>None\<close>, booleans,
  unbounded integers, strings, lists and string-keyed dictionaries. A dictionary is an
  association list read with \<open>map_of\<close>. A Python \<^verbatim>\<open>str\<close> is a \<open>string\<close>, standing
  for its UTF-8 encoding: the source only compares strings for equality and tests them for
  emptiness, and both are the same on the encoding.
\<close>

datatype pyval =
    PNone
  | PBool bool
  | PInt int
  | PStr string
  | PList "pyval list"
  | PDict "(string \<times> pyval) list"

text \<open>
  Exceptions are values. \<open>ValueError msg\<close> is \<^verbatim>\<open>ValueError(msg)\<close>; \<open>KeyError k\<close> is what
  \<^verbatim>\<open>data[k]\<close> raises on a missing key; \<open>EnumValueError cls v\<close> is the \<^verbatim>\<open>ValueError\<close>
  that \<^verbatim>\<open>enum\<close> raises from \<^verbatim>\<open>cls(v)\<close> when \<open>v\<close> is not the value of a member;
  \<open>FrozenInstanceError\<close> is what a frozen dataclass raises on attribute assignment.
  \<open>TypeError k\<close> marks the boundary of the typed model: the dataclass fields carry the types
  of their annotations, the source performs no \<^verbatim>\<open>isinstance\<close> test, and a mapping whose
  value under \<open>k\<close> is not of the annotated type is reported so.
\<close>

datatype error =
    ValueError string
  | KeyError string
  | EnumValueError string pyval
  | TypeError string
  | FileNotFoundError string
  | OSError string
  | FrozenInstanceError string

definition bind :: "error + 'a \<Rightarrow> ('a \<Rightarrow> error + 'b) \<Rightarrow> error + 'b" where
  "bind m f = (case m of Inl e \<Rightarrow> Inl e | Inr x \<Rightarrow> f x)"

text \<open>\<^verbatim>\<open>data[k]\<close> and \<^verbatim>\<open>data.get(k, default)\<close>.\<close>

definition getitem :: "(string \<times> pyval) list \<Rightarrow> string \<Rightarrow> error + pyval" where
  "getitem data k = (case map_of data k of None \<Rightarrow> Inl (KeyError k) | Some v \<Rightarrow> Inr v)"

definition get_default :: "(string \<times> pyval) list \<Rightarrow> string \<Rightarrow> pyval \<Rightarrow> pyval" where
  "get_default data k d = (case map_of data k of None \<Rightarrow> d | Some v \<Rightarrow> v)"

text \<open>Reading a value at the annotated type of the field it is stored in.\<close>

fun as_str :: "string \<Rightarrow> pyval \<Rightarrow> error + string" where
  "as_str k (PStr s) = Inr s"
| "as_str k v = Inl (TypeError k)"

fun as_int :: "string \<Rightarrow> pyval \<Rightarrow> error + int" where
  "as_int k (PInt i) = Inr i"
| "as_int k v = Inl (TypeError k)"


fun as_opt_str :: "string \<Rightarrow> pyval \<Rightarrow> error + string option" where
  "as_opt_str k PNone = Inr None"
| "as_opt_str k (PStr s) = Inr (Some s)"
| "as_opt_str k v = Inl (TypeError k)"

fun as_dict :: "string \<Rightarrow> pyval \<Rightarrow> error + (string \<times> pyval) list" where
  "as_dict k (PDict d) = Inr d"
| "as_dict k v = Inl (TypeError k)"



fun map_err_snd :: "('a \<Rightarrow> error + 'b) \<Rightarrow> (string \<times> 'a) list \<Rightarrow> error + (string \<times> 'b) list" where
  "map_err_snd f [] = Inr []"
| "map_err_snd f ((k, x) # xs) =
     bind (f x) (\<lambda>y. bind (map_err_snd f xs) (\<lambda>ys. Inr ((k, y) # ys)))"


definition as_int_dict :: "string \<Rightarrow> pyval \<Rightarrow> error + (string \<times> int) list" where
  "as_int_dict k v = bind (as_dict k v) (map_err_snd (as_int k))"

section \<open>Severity and IssueCategory\<close>

datatype Severity = ERROR | WARNING | INFO

datatype IssueCategory = TYPE_ERROR | STYLE_VIOLATION | IMPORT_ISSUE

text \<open>\<^verbatim>\<open>member.value\<close>: the string written in the class body.\<close>

fun Severity_value :: "Severity \<Rightarrow> string" where
  "Severity_value ERROR = ''error''"
| "Severity_value WARNING = ''warning''"
| "Severity_value INFO = ''info''"

fun IssueCategory_value :: "IssueCategory \<Rightarrow> string" where
  "IssueCategory_value TYPE_ERROR = ''type-error''"
| "IssueCategory_value STYLE_VIOLATION = ''style-violation''"
| "IssueCategory_value IMPORT_ISSUE = ''import-issue''"

text \<open>
  \<^verbatim>\<open>Severity(v)\<close> and \<^verbatim>\<open>IssueCategory(v)\<close>: the member whose value equals \<open>v\<close>, else the
  enumeration's \<^verbatim>\<open>ValueError\<close>. A value that is not a string equals no member's value.
\<close>

definition Severity_call :: "pyval \<Rightarrow> error + Severity" where
  "Severity_call v =
     (if v = PStr ''error'' then Inr ERROR
      else if v = PStr ''warning'' then Inr WARNING
      else if v = PStr ''info'' then Inr INFO
      else Inl (EnumValueError ''Severity'' v))"

definition IssueCategory_call :: "pyval \<Rightarrow> error + IssueCategory" where
  "IssueCategory_call v =
     (if v = PStr ''type-error'' then Inr TYPE_ERROR
      else if v = PStr ''style-violation'' then Inr STYLE_VIOLATION
      else if v = PStr ''import-issue'' then Inr IMPORT_ISSUE
      else Inl (EnumValueError ''IssueCategory'' v))"

section \<open>Issue\<close>

record Issue =
  file_path :: string
  line :: int
  column :: int
  severity :: Severity
  category :: IssueCategory
  code :: string
  message :: string
  suggestion :: "string option"
  source :: string

text \<open>The message \<^verbatim>\<open>source must be 'pyright' or 'ruff'\<close>; it ends in a quote character.\<close>

definition source_msg :: string where
  "source_msg = ''source must be 'pyright' or 'ruff'' @ [CHR 0x27]"

text \<open>\<^verbatim>\<open>Issue.__post_init__\<close>: the six checks in the order of the source; \<open>None\<close> is "returns".\<close>

definition Issue_post_init :: "Issue \<Rightarrow> error option" where
  "Issue_post_init self =
     (if line self < 1 then Some (ValueError ''Line number must be >= 1'')
      else if column self < 1 then Some (ValueError ''Column number must be >= 1'')
      else if file_path self = [] then Some (ValueError ''file_path cannot be empty'')
      else if code self = [] then Some (ValueError ''code cannot be empty'')
      else if message self = [] then Some (ValueError ''message cannot be empty'')
      else if source self \<notin> {''pyright'', ''ruff''}
        then Some (ValueError source_msg)
      else None)"

text \<open>
  The generated \<^verbatim>\<open>__init__\<close>: store the arguments, then run \<^verbatim>\<open>__post_init__\<close>; the
  caller gets the instance only if that returns. \<open>suggestion\<close> and \<open>source\<close> have defaults
  (\<^verbatim>\<open>None\<close> and \<^verbatim>\<open>""\<close>): an omitted argument is \<open>None\<close> here.
\<close>

definition Issue_init ::
  "string \<Rightarrow> int \<Rightarrow> int \<Rightarrow> Severity \<Rightarrow> IssueCategory \<Rightarrow> string \<Rightarrow> string \<Rightarrow>
   string option option \<Rightarrow> string option \<Rightarrow> error + Issue" where
  "Issue_init fp ln col sev cat cd msg sugg src =
     (let self = \<lparr>file_path = fp, line = ln, column = col, severity = sev, category = cat,
                  code = cd, message = msg,
                  suggestion = (case sugg of None \<Rightarrow> None | Some s \<Rightarrow> s),
                  source = (case src of None \<Rightarrow> '''' | Some s \<Rightarrow> s)\<rparr>
      in case Issue_post_init self of Some e \<Rightarrow> Inl e | None \<Rightarrow> Inr self)"


text \<open>
  \<^verbatim>\<open>Issue.from_dict\<close>: the keyword arguments are evaluated in the order written, so the
  first missing key or invalid enumeration string is the error raised; \<^verbatim>\<open>suggestion\<close> and
  \<^verbatim>\<open>source\<close> are read with \<^verbatim>\<open>data.get\<close> and are always passed to the constructor.
\<close>

definition Issue_from_dict :: "(string \<times> pyval) list \<Rightarrow> error + Issue" where
  "Issue_from_dict data =
     bind (bind (getitem data ''file_path'') (as_str ''file_path'')) (\<lambda>fp.
     bind (bind (getitem data ''line'') (as_int ''line'')) (\<lambda>ln.
     bind (bind (getitem data ''column'') (as_int ''column'')) (\<lambda>col.
     bind (bind (getitem data ''severity'') Severity_call) (\<lambda>sev.
     bind (bind (getitem data ''category'') IssueCategory_call) (\<lambda>cat.
     bind (bind (getitem data ''code'') (as_str ''code'')) (\<lambda>cd.
     bind (bind (getitem data ''message'') (as_str ''message'')) (\<lambda>msg.
     bind (as_opt_str ''suggestion'' (get_default data ''suggestion'' PNone)) (\<lambda>sugg.
     bind (as_str ''source'' (get_default data ''source'' (PStr ''''))) (\<lambda>src.
     Issue_init fp ln col sev cat cd msg (Some sugg) (Some src))))))))))"

section \<open>Fix\<close>

record Fix =
  file_path :: string
  original_code :: string
  fixed_code :: string
  issue :: Issue
  explanation :: string
  safe :: bool

definition Fix_post_init :: "Fix \<Rightarrow> error option" where
  "Fix_post_init self =
     (if Fix.file_path self = [] then Some (ValueError ''file_path cannot be empty'')
      else if explanation self = [] then Some (ValueError ''explanation cannot be empty'')
      else if original_code self = fixed_code self
        then Some (ValueError ''original_code and fixed_code cannot be identical'')
      else None)"

text \<open>The generated \<^verbatim>\<open>__init__\<close>; \<open>safe\<close> defaults to \<^verbatim>\<open>True\<close>.\<close>

definition Fix_init ::
  "string \<Rightarrow> string \<Rightarrow> string \<Rightarrow> Issue \<Rightarrow> string \<Rightarrow> bool option \<Rightarrow> error + Fix" where
  "Fix_init fp oc fc iss expl sf =
     (let self = \<lparr>file_path = fp, original_code = oc, fixed_code = fc, issue = iss,
                  explanation = expl, safe = (case sf of None \<Rightarrow> True | Some b \<Rightarrow> b)\<rparr>
      in case Fix_post_init self of Some e \<Rightarrow> Inl e | None \<Rightarrow> Inr self)"



section \<open>ReportSummary\<close>

record ReportSummary =
  total_issues :: int
  errors :: int
  warnings :: int
  infos :: int
  by_category :: "(string \<times> int) list"
  by_file :: "(string \<times> int) list"

definition ReportSummary_post_init :: "ReportSummary \<Rightarrow> error option" where
  "ReportSummary_post_init self =
     (if total_issues self < 0 then Some (ValueError ''total_issues cannot be negative'')
      else if errors self < 0 then Some (ValueError ''errors cannot be negative'')
      else if warnings self < 0 then Some (ValueError ''warnings cannot be negative'')
      else if infos self < 0 then Some (ValueError ''infos cannot be negative'')
      else if errors self + warnings self + infos self \<noteq> total_issues self
        then Some (ValueError ''Sum of errors, warnings, and infos must equal total_issues'')
      else None)"

text \<open>
  The generated \<^verbatim>\<open>__init__\<close>; \<open>by_category\<close> and \<open>by_file\<close> default to a fresh empty
  dictionary (\<^verbatim>\<open>default_factory=dict\<close>).
\<close>

definition ReportSummary_init ::
  "int \<Rightarrow> int \<Rightarrow> int \<Rightarrow> int \<Rightarrow> (string \<times> int) list option \<Rightarrow> (string \<times> int) list option \<Rightarrow>
   error + ReportSummary" where
  "ReportSummary_init t e w i bc bf =
     (let self = \<lparr>total_issues = t, errors = e, warnings = w, infos = i,
                  by_category = (case bc of None \<Rightarrow> [] | Some d \<Rightarrow> d),
                  by_file = (case bf of None \<Rightarrow> [] | Some d \<Rightarrow> d)\<rparr>
      in case ReportSummary_post_init self of Some e \<Rightarrow> Inl e | None \<Rightarrow> Inr self)"

definition int_dict :: "(string \<times> int) list \<Rightarrow> pyval" where
  "int_dict d = PDict (map (\<lambda>(k, n). (k, PInt n)) d)"

definition ReportSummary_to_dict :: "ReportSummary \<Rightarrow> (string \<times> pyval) list" where
  "ReportSummary_to_dict self =
     [(''total_issues'', PInt (total_issues self)),
      (''errors'', PInt (errors self)),
      (''warnings'', PInt (warnings self)),
      (''infos'', PInt (infos self)),
      (''by_category'', int_dict (by_category self)),
      (''by_file'', int_dict (by_file self))]"

definition ReportSummary_from_dict :: "(string \<times> pyval) list \<Rightarrow> error + ReportSummary" where
  "ReportSummary_from_dict data =
     bind (bind (getitem data ''total_issues'') (as_int ''total_issues'')) (\<lambda>t.
     bind (bind (getitem data ''errors'') (as_int ''errors'')) (\<lambda>e.
     bind (bind (getitem data ''warnings'') (as_int ''warnings'')) (\<lambda>w.
     bind (bind (getitem data ''infos'') (as_int ''infos'')) (\<lambda>i.
     bind (as_int_dict ''by_category'' (get_default data ''by_category'' (PDict []))) (\<lambda>bc.
     bind (as_int_dict ''by_file'' (get_default data ''by_file'' (PDict []))) (\<lambda>bf.
     ReportSummary_init t e w i (Some bc) (Some bf)))))))"

section \<open>Timestamps\<close>

text \<open>
  \<^verbatim>\<open>datetime.datetime\<close> belongs to the standard library. The model is the naive timestamp
  (no \<^verbatim>\<open>tzinfo\<close>), which is what \<^verbatim>\<open>datetime.datetime.now()\<close> returns: seven fields
  within the ranges the library's constructor enforces.
\<close>

record datetime =
  year :: nat
  month :: nat
  day :: nat
  hour :: nat
  minute :: nat
  second :: nat
  microsecond :: nat

definition is_leap :: "nat \<Rightarrow> bool" where
  "is_leap y = (y mod 4 = 0 \<and> (y mod 100 \<noteq> 0 \<or> y mod 400 = 0))"

definition days_in_month :: "nat \<Rightarrow> nat \<Rightarrow> nat" where
  "days_in_month y m =
     (if m = 2 then (if is_leap y then 29 else 28)
      else if m = 4 \<or> m = 6 \<or> m = 9 \<or> m = 11 then 30 else 31)"

definition valid_datetime :: "datetime \<Rightarrow> bool" where
  "valid_datetime t =
     (1 \<le> year t \<and> year t \<le> 9999 \<and> 1 \<le> month t \<and> month t \<le> 12 \<and>
      1 \<le> day t \<and> day t \<le> days_in_month (year t) (month t) \<and>
      hour t < 24 \<and> minute t < 60 \<and> second t < 60 \<and> microsecond t < 1000000)"















section \<open>Report\<close>

record Report =
  issues :: "Issue list"
  "fixes" :: "Fix list"
  summary :: ReportSummary
  timestamp :: datetime
  project_path :: string

definition Report_post_init :: "Report \<Rightarrow> error option" where
  "Report_post_init self =
     (if project_path self = [] then Some (ValueError ''project_path cannot be empty'')
      else None)"

definition Report_init ::
  "Issue list \<Rightarrow> Fix list \<Rightarrow> ReportSummary \<Rightarrow> datetime \<Rightarrow> string \<Rightarrow> error + Report" where
  "Report_init iss fxs sm ts pp =
     (let self = \<lparr>issues = iss, fixes = fxs, summary = sm, timestamp = ts, project_path = pp\<rparr>
      in case Report_post_init self of Some e \<Rightarrow> Inl e | None \<Rightarrow> Inr self)"



section \<open>Config\<close>

record Config =
  project_path :: string
  pyright_config :: "(string \<times> pyval) list"
  ruff_config :: "(string \<times> pyval) list"
  exclusions :: "string list"
  google_style_guide :: bool
  auto_fix_enabled :: bool
  backup_enabled :: bool
  dry_run :: bool

definition Config_post_init :: "Config \<Rightarrow> error option" where
  "Config_post_init self =
     (if Config.project_path self = [] then Some (ValueError ''project_path cannot be empty'')
      else None)"

text \<open>
  The generated \<^verbatim>\<open>__init__\<close>: every field but \<open>project_path\<close> has a default (empty
  dictionaries, an empty list, \<^verbatim>\<open>True\<close>, \<^verbatim>\<open>True\<close>, \<^verbatim>\<open>True\<close>, \<^verbatim>\<open>False\<close>).
\<close>

definition Config_init ::
  "string \<Rightarrow> (string \<times> pyval) list option \<Rightarrow> (string \<times> pyval) list option \<Rightarrow>
   string list option \<Rightarrow> bool option \<Rightarrow> bool option \<Rightarrow> bool option \<Rightarrow> bool option \<Rightarrow>
   error + Config" where
  "Config_init pp pc rc ex gs af be dr =
     (let self = \<lparr>project_path = pp,
                  pyright_config = (case pc of None \<Rightarrow> [] | Some d \<Rightarrow> d),
                  ruff_config = (case rc of None \<Rightarrow> [] | Some d \<Rightarrow> d),
                  exclusions = (case ex of None \<Rightarrow> [] | Some xs \<Rightarrow> xs),
                  google_style_guide = (case gs of None \<Rightarrow> True | Some b \<Rightarrow> b),
                  auto_fix_enabled = (case af of None \<Rightarrow> True | Some b \<Rightarrow> b),
                  backup_enabled = (case be of None \<Rightarrow> True | Some b \<Rightarrow> b),
                  dry_run = (case dr of None \<Rightarrow> False | Some b \<Rightarrow> b)\<rparr>
      in case Config_post_init self of Some e \<Rightarrow> Inl e | None \<Rightarrow> Inr self)"



section \<open>Attribute assignment and equality of the dataclasses\<close>








section \<open>The file system\<close>

















section \<open>create\_backup\<close>




section \<open>is\_monorepo\<close>




section \<open>Valid instances\<close>

text \<open>
  A valid instance is one that the checks of its class accept, built from valid instances:
  the Issue of a Fix, the Issues, the Fixes and the summary of a Report are themselves
  constructed values, and the timestamp is one the library's constructor accepts.
\<close>

definition valid_Issue :: "Issue \<Rightarrow> bool" where
  "valid_Issue i = (Issue_post_init i = None)"

definition valid_Fix :: "Fix \<Rightarrow> bool" where
  "valid_Fix f = (Fix_post_init f = None \<and> valid_Issue (issue f))"

definition valid_ReportSummary :: "ReportSummary \<Rightarrow> bool" where
  "valid_ReportSummary s = (ReportSummary_post_init s = None)"

definition valid_Report :: "Report \<Rightarrow> bool" where
  "valid_Report r =
     (Report_post_init r = None \<and> list_all valid_Issue (issues r) \<and>
      list_all valid_Fix (fixes r) \<and> valid_ReportSummary (summary r) \<and>
      valid_datetime (timestamp r))"

definition valid_Config :: "Config \<Rightarrow> bool" where
  "valid_Config c = (Config_post_init c = None)"

section \<open>Example values\<close>

text \<open>The Issue of the specification's first scenario, and the Fix of the unit tests.\<close>

definition scenario_issue :: Issue where
  "scenario_issue =
     \<lparr>Issue.file_path = ''test.py'', line = 10, column = 5, severity = ERROR, category = TYPE_ERROR,
      code = ''E501'', message = ''Line too long'', suggestion = Some ''Break the line'',
      source = ''ruff''\<rparr>"


definition scenario_summary :: ReportSummary where
  "scenario_summary =
     \<lparr>total_issues = 1, errors = 1, warnings = 0, infos = 0,
      by_category = [(''type-error'', 1)], by_file = [(''test.py'', 1)]\<rparr>"






section \<open>Properties\<close>

lemma bind_Inr [simp]: "bind (Inr x) f = f x"
  by (simp add: bind_def)

lemma bind_Inl [simp]: "bind (Inl e) f = Inl e"
  by (simp add: bind_def)

text \<open>The shape of a failing bind.\<close>

lemma bind_eq_Inl:
  "bind m f = Inl e \<longleftrightarrow> m = Inl e \<or> (\<exists>x. m = Inr x \<and> f x = Inl e)"
  by (cases m) simp_all

lemma bind_eq_Inr:
  "bind m f = Inr y \<longleftrightarrow> (\<exists>x. m = Inr x \<and> f x = Inr y)"
  by (cases m) simp_all

lemma as_str_err: "as_str k v = Inl e \<Longrightarrow> e = TypeError k"
  by (cases v) simp_all

lemma as_int_err: "as_int k v = Inl e \<Longrightarrow> e = TypeError k"
  by (cases v) simp_all

lemma as_opt_str_err: "as_opt_str k v = Inl e \<Longrightarrow> e = TypeError k"
  by (cases v) simp_all

lemma getitem_err: "getitem data k = Inl e \<Longrightarrow> e = KeyError k"
  by (simp add: getitem_def split: option.splits)

lemma Severity_call_err: "Severity_call v = Inl e \<Longrightarrow> e = EnumValueError ''Severity'' v"
  by (simp add: Severity_call_def split: if_splits)

lemma IssueCategory_call_err: "IssueCategory_call v = Inl e \<Longrightarrow> e = EnumValueError ''IssueCategory'' v"
  by (simp add: IssueCategory_call_def split: if_splits)

text \<open>Without a source, or with the empty default, the constructor never returns.\<close>

lemma Issue_init_empty_source:
  "\<exists>m. Issue_init fp ln col sev cat cd msg sugg (Some []) = Inl (ValueError m)"
  by (simp add: Issue_init_def Issue_post_init_def Let_def)

lemma Issue_init_no_source:
  "Issue_init fp ln col sev cat cd msg sugg None = Issue_init fp ln col sev cat cd msg sugg (Some [])"
  by (simp add: Issue_init_def)

lemma Issue_from_dict_no_source_fails:
  assumes "map_of data ''source'' = None"
  shows "\<exists>e. Issue_from_dict data = Inl e \<and> e \<noteq> KeyError ''source''"
proof (cases "Issue_from_dict data")
  case (Inr i)
  then obtain fp ln col sev cat cd msg sugg where "Issue_init fp ln col sev cat cd msg (Some sugg) (Some []) = Inr i"
    using assms by (auto simp: Issue_from_dict_def bind_eq_Inr get_default_def)
  with Issue_init_empty_source [of fp ln col sev cat cd msg "Some sugg"] show ?thesis by simp
next
  case (Inl e)
  have "e \<noteq> KeyError ''source''"
  proof
    assume e: "e = KeyError ''source''"
    from Inl show False
      unfolding Issue_from_dict_def bind_eq_Inl e
      by (auto dest!: getitem_err as_str_err as_int_err as_opt_str_err Severity_call_err
            IssueCategory_call_err simp: Issue_init_def Issue_post_init_def Let_def split: if_splits)
  qed
  with Inl show ?thesis by simp
qed






























lemma ReportSummary_from_dict_scenario:
  "ReportSummary_from_dict (ReportSummary_to_dict scenario_summary) = Inr scenario_summary"
  by (simp add: ReportSummary_from_dict_def ReportSummary_to_dict_def scenario_summary_def
      getitem_def get_default_def as_int_dict_def int_dict_def ReportSummary_init_def
      ReportSummary_post_init_def)















lemma Severity_call_value [simp]: "Severity_call (PStr (Severity_value x)) = Inr x"
  by (cases x) (simp_all add: Severity_call_def)

lemma IssueCategory_call_value [simp]: "IssueCategory_call (PStr (IssueCategory_value x)) = Inr x"
  by (cases x) (simp_all add: IssueCategory_call_def)




































text \<open>The constructors return valid instances only, when given valid parts.\<close>

lemma Issue_init_valid: "Issue_init fp ln col sev cat cd msg sugg src = Inr i \<Longrightarrow> valid_Issue i"
  by (auto simp: Issue_init_def valid_Issue_def Let_def split: option.splits)

lemma Fix_init_valid:
  "Fix_init fp oc fc iss expl sf = Inr f \<Longrightarrow> valid_Issue iss \<Longrightarrow> valid_Fix f"
  by (auto simp: Fix_init_def valid_Fix_def Let_def split: option.splits)

lemma ReportSummary_init_valid:
  "ReportSummary_init t e w n bc bf = Inr s \<Longrightarrow> valid_ReportSummary s"
  by (auto simp: ReportSummary_init_def valid_ReportSummary_def Let_def split: option.splits)

lemma Report_init_valid:
  "Report_init is fs sm ts pp = Inr r \<Longrightarrow> list_all valid_Issue is \<Longrightarrow>
     list_all valid_Fix fs \<Longrightarrow> valid_ReportSummary sm \<Longrightarrow> valid_datetime ts \<Longrightarrow> valid_Report r"
  by (auto simp: Report_init_def valid_Report_def Let_def split: option.splits)

lemma Config_init_valid:
  "Config_init pp pc rc ex gs af be dr = Inr c \<Longrightarrow> valid_Config c"
  by (auto simp: Config_init_def valid_Config_def Let_def split: option.splits)














subsection \<open>Construction of an Issue\<close>

text \<open>
  Claim C2. Constructing an Issue runs the six checks in the order line, column, file\_path,
  code, message, source, and fails with the \<^verbatim>\<open>ValueError\<close> of the first invariant that is
  violated: a line below 1 always gives \<^verbatim>\<open>Line number must be >= 1\<close>, and a source other
  than \<^verbatim>\<open>pyright\<close> and \<^verbatim>\<open>ruff\<close> gives the source message once the five other invariants
  hold. When all six hold the constructor returns the instance with the fields as given,
  and every instance it returns satisfies all six.
\<close>

theorem Issue_init_checks:
  "(let r = Issue_init fp ln col sev cat cd msg sugg (Some s);
        self = \<lparr>Issue.file_path = fp, line = ln, column = col, severity = sev, category = cat,
                code = cd, message = msg,
                suggestion = (case sugg of None \<Rightarrow> None | Some x \<Rightarrow> x), source = s\<rparr>
    in (ln < 1 \<longrightarrow> r = Inl (ValueError ''Line number must be >= 1'')) \<and>
       (1 \<le> ln \<and> col < 1 \<longrightarrow> r = Inl (ValueError ''Column number must be >= 1'')) \<and>
       (1 \<le> ln \<and> 1 \<le> col \<and> fp = [] \<longrightarrow> r = Inl (ValueError ''file_path cannot be empty'')) \<and>
       (1 \<le> ln \<and> 1 \<le> col \<and> fp \<noteq> [] \<and> cd = [] \<longrightarrow>
          r = Inl (ValueError ''code cannot be empty'')) \<and>
       (1 \<le> ln \<and> 1 \<le> col \<and> fp \<noteq> [] \<and> cd \<noteq> [] \<and> msg = [] \<longrightarrow>
          r = Inl (ValueError ''message cannot be empty'')) \<and>
       (1 \<le> ln \<and> 1 \<le> col \<and> fp \<noteq> [] \<and> cd \<noteq> [] \<and> msg \<noteq> [] \<and> s \<noteq> ''pyright'' \<and> s \<noteq> ''ruff'' \<longrightarrow>
          r = Inl (ValueError source_msg)) \<and>
       (1 \<le> ln \<and> 1 \<le> col \<and> fp \<noteq> [] \<and> cd \<noteq> [] \<and> msg \<noteq> [] \<and> (s = ''pyright'' \<or> s = ''ruff'') \<longrightarrow>
          r = Inr self) \<and>
       (\<forall>i. r = Inr i \<longrightarrow>
          1 \<le> line i \<and> 1 \<le> column i \<and> Issue.file_path i \<noteq> [] \<and> code i \<noteq> [] \<and>
          message i \<noteq> [] \<and> (source i = ''pyright'' \<or> source i = ''ruff'')))"
  by (auto simp: Issue_init_def Issue_post_init_def Let_def)


theorem Issue_init_checks_witness:
  "Issue_init ''test.py'' 10 5 ERROR TYPE_ERROR ''E501'' ''Line too long''
     (Some (Some ''Break the line'')) (Some ''ruff'') = Inr scenario_issue \<and>
   Issue_init ''test.py'' 0 5 ERROR TYPE_ERROR ''E501'' ''Line too long''
     (Some (Some ''Break the line'')) (Some ''ruff'') =
     Inl (ValueError ''Line number must be >= 1'') \<and>
   Issue_init ''test.py'' 10 0 ERROR TYPE_ERROR ''E501'' ''Line too long''
     (Some (Some ''Break the line'')) (Some ''ruff'') =
     Inl (ValueError ''Column number must be >= 1'') \<and>
   Issue_init [] 10 5 ERROR TYPE_ERROR ''E501'' ''Line too long''
     (Some (Some ''Break the line'')) (Some ''ruff'') =
     Inl (ValueError ''file_path cannot be empty'') \<and>
   Issue_init ''test.py'' 10 5 ERROR TYPE_ERROR [] ''Line too long''
     (Some (Some ''Break the line'')) (Some ''ruff'') =
     Inl (ValueError ''code cannot be empty'') \<and>
   Issue_init ''test.py'' 10 5 ERROR TYPE_ERROR ''E501'' []
     (Some (Some ''Break the line'')) (Some ''ruff'') =
     Inl (ValueError ''message cannot be empty'') \<and>
   Issue_init ''test.py'' 10 5 ERROR TYPE_ERROR ''E501'' ''Line too long''
     (Some (Some ''Break the line'')) (Some ''flake8'') =
     Inl (ValueError source_msg)"
  using Issue_init_checks [of "''test.py''" 10 5 ERROR TYPE_ERROR "''E501''" "''Line too long''"
          "Some (Some ''Break the line'')" "''ruff''"]
        Issue_init_checks [of "''test.py''" 0 5 ERROR TYPE_ERROR "''E501''" "''Line too long''"
          "Some (Some ''Break the line'')" "''ruff''"]
        Issue_init_checks [of "''test.py''" 10 0 ERROR TYPE_ERROR "''E501''" "''Line too long''"
          "Some (Some ''Break the line'')" "''ruff''"]
        Issue_init_checks [of "[]" 10 5 ERROR TYPE_ERROR "''E501''" "''Line too long''"
          "Some (Some ''Break the line'')" "''ruff''"]
        Issue_init_checks [of "''test.py''" 10 5 ERROR TYPE_ERROR "[]" "''Line too long''"
          "Some (Some ''Break the line'')" "''ruff''"]
        Issue_init_checks [of "''test.py''" 10 5 ERROR TYPE_ERROR "''E501''" "[]"
          "Some (Some ''Break the line'')" "''ruff''"]
        Issue_init_checks [of "''test.py''" 10 5 ERROR TYPE_ERROR "''E501''" "''Line too long''"
          "Some (Some ''Break the line'')" "''flake8''"]
  by (simp add: Let_def scenario_issue_def)

subsection \<open>The sum invariant of ReportSummary\<close>

text \<open>
  Claim C3. Every ReportSummary that the constructor or \<^verbatim>\<open>from_dict\<close> returns satisfies
  \<open>errors + warnings + infos = total_issues\<close> with the four counts non-negative; four
  non-negative counts that violate the identity are rejected with the sum message, any
  negative count is rejected, and counts that are non-negative and satisfy the identity are
  accepted.
\<close>

theorem ReportSummary_sum_invariant:
  "(\<forall>s. ReportSummary_init t e w i bc bf = Inr s \<longrightarrow>
        errors s + warnings s + infos s = total_issues s \<and>
        0 \<le> total_issues s \<and> 0 \<le> errors s \<and> 0 \<le> warnings s \<and> 0 \<le> infos s) \<and>
   (\<forall>s. ReportSummary_from_dict data = Inr s \<longrightarrow>
        errors s + warnings s + infos s = total_issues s \<and>
        0 \<le> total_issues s \<and> 0 \<le> errors s \<and> 0 \<le> warnings s \<and> 0 \<le> infos s) \<and>
   (0 \<le> t \<and> 0 \<le> e \<and> 0 \<le> w \<and> 0 \<le> i \<and> e + w + i \<noteq> t \<longrightarrow>
      ReportSummary_init t e w i bc bf =
        Inl (ValueError ''Sum of errors, warnings, and infos must equal total_issues'')) \<and>
   (t < 0 \<or> e < 0 \<or> w < 0 \<or> i < 0 \<longrightarrow> (\<exists>err. ReportSummary_init t e w i bc bf = Inl err)) \<and>
   (0 \<le> t \<and> 0 \<le> e \<and> 0 \<le> w \<and> 0 \<le> i \<and> e + w + i = t \<longrightarrow>
      (\<exists>s. ReportSummary_init t e w i bc bf = Inr s))"
proof -
  have init: "errors s + warnings s + infos s = total_issues s \<and>
        0 \<le> total_issues s \<and> 0 \<le> errors s \<and> 0 \<le> warnings s \<and> 0 \<le> infos s"
    if "ReportSummary_init t' e' w' i' bc' bf' = Inr s" for t' e' w' i' bc' bf' s
    using that by (auto simp: ReportSummary_init_def ReportSummary_post_init_def Let_def split: if_splits)
  have fd: "\<exists>t' e' w' i' bc' bf'. ReportSummary_init t' e' w' i' bc' bf' = Inr s"
    if "ReportSummary_from_dict data = Inr s" for s
    using that by (fastforce simp: ReportSummary_from_dict_def bind_def split: sum.splits)
  show ?thesis
    using init fd
    by (auto simp: ReportSummary_init_def ReportSummary_post_init_def Let_def)
qed

theorem ReportSummary_sum_invariant_witness:
  "ReportSummary_init 10 3 5 1 None None =
     Inl (ValueError ''Sum of errors, warnings, and infos must equal total_issues'') \<and>
   (\<exists>err. ReportSummary_init 9 (- 3) 5 1 None None = Inl err) \<and>
   (\<exists>s. ReportSummary_init 9 3 5 1 None None = Inr s \<and>
        errors s + warnings s + infos s = total_issues s) \<and>
   ReportSummary_from_dict (ReportSummary_to_dict scenario_summary) = Inr scenario_summary \<and>
   errors scenario_summary + warnings scenario_summary + infos scenario_summary =
     total_issues scenario_summary"
  using ReportSummary_sum_invariant [of 10 3 5 1 None None "[]"]
        ReportSummary_sum_invariant [of 9 "- 3" 5 1 None None "[]"]
        ReportSummary_sum_invariant [of 9 3 5 1 None None
          "ReportSummary_to_dict scenario_summary"]
        ReportSummary_from_dict_scenario
  by auto

subsection \<open>A Fix must change the code\<close>



subsection \<open>Serialization of the enumerations\<close>




subsection \<open>An Issue without a source\<close>

text \<open>
  Claim C10, as amended. The source defaults to the empty string, so constructing an Issue
  without a source always fails with a validation error, and it is the source message once
  the five other invariants hold. \<^verbatim>\<open>Issue.from_dict\<close> on a mapping without the key
  \<^verbatim>\<open>source\<close> always fails, never with a missing-field error for \<^verbatim>\<open>source\<close>; the
  error is the source validation error when the seven required keys are present with values
  that pass the five other checks. A required key that is missing, an invalid enumeration
  string or an earlier violated invariant is reported first.
\<close>

theorem Issue_missing_source:
  "(\<exists>m. Issue_init fp ln col sev cat cd msg sugg None = Inl (ValueError m)) \<and>
   (1 \<le> ln \<and> 1 \<le> col \<and> fp \<noteq> [] \<and> cd \<noteq> [] \<and> msg \<noteq> [] \<longrightarrow>
      Issue_init fp ln col sev cat cd msg sugg None = Inl (ValueError source_msg)) \<and>
   (map_of data ''source'' = None \<longrightarrow>
      (\<exists>e. Issue_from_dict data = Inl e \<and> e \<noteq> KeyError ''source'')) \<and>
   (map_of data ''source'' = None \<and>
    map_of data ''file_path'' = Some (PStr fp) \<and> map_of data ''line'' = Some (PInt ln) \<and>
    map_of data ''column'' = Some (PInt col) \<and>
    map_of data ''severity'' = Some (PStr (Severity_value sev)) \<and>
    map_of data ''category'' = Some (PStr (IssueCategory_value cat)) \<and>
    map_of data ''code'' = Some (PStr cd) \<and> map_of data ''message'' = Some (PStr msg) \<and>
    (map_of data ''suggestion'' = None \<or> map_of data ''suggestion'' = Some PNone \<or>
     map_of data ''suggestion'' = Some (PStr sg)) \<and>
    1 \<le> ln \<and> 1 \<le> col \<and> fp \<noteq> [] \<and> cd \<noteq> [] \<and> msg \<noteq> [] \<longrightarrow>
      Issue_from_dict data = Inl (ValueError source_msg))"
proof -
  have sev: "Severity_call (PStr (Severity_value sev)) = Inr sev"
    by (cases sev) (simp_all add: Severity_call_def)
  have cat: "IssueCategory_call (PStr (IssueCategory_value cat)) = Inr cat"
    by (cases cat) (simp_all add: IssueCategory_call_def)
  have init: "1 \<le> ln \<and> 1 \<le> col \<and> fp \<noteq> [] \<and> cd \<noteq> [] \<and> msg \<noteq> [] \<longrightarrow>
      Issue_init fp ln col sev cat cd msg s' (Some []) = Inl (ValueError source_msg)" for s'
    by (simp add: Issue_init_def Issue_post_init_def Let_def)
  show ?thesis
    using Issue_init_empty_source [of fp ln col sev cat cd msg sugg]
      Issue_from_dict_no_source_fails [of data] init
    by (auto simp: Issue_init_no_source Issue_from_dict_def getitem_def get_default_def sev cat)
qed

theorem Issue_missing_source_witness:
  "Issue_init ''test.py'' 10 5 ERROR TYPE_ERROR ''E501'' ''Line too long'' None None =
     Inl (ValueError source_msg) \<and>
   Issue_from_dict
     [(''file_path'', PStr ''test.py''), (''line'', PInt 10), (''column'', PInt 5),
      (''severity'', PStr ''error''), (''category'', PStr ''type-error''),
      (''code'', PStr ''E501''), (''message'', PStr ''Line too long'')] =
     Inl (ValueError source_msg)"
  using Issue_missing_source [where fp = "''test.py''" and ln = 10 and col = 5 and sev = ERROR
          and cat = TYPE_ERROR and cd = "''E501''" and msg = "''Line too long''" and sugg = None
          and data = "[(''file_path'', PStr ''test.py''), (''line'', PInt 10), (''column'', PInt 5),
      (''severity'', PStr ''error''), (''category'', PStr ''type-error''),
      (''code'', PStr ''E501''), (''message'', PStr ''Line too long'')]"]
  by simp

theorem Issue_missing_source_counterexample:
  "map_of [(''file_path'', PStr ''test.py''), (''line'', PInt 10), (''column'', PInt 5),
      (''severity'', PStr ''error''), (''category'', PStr ''type-error''),
      (''code'', PStr ''E501'')] ''source'' = None \<and>
   Issue_from_dict
     [(''file_path'', PStr ''test.py''), (''line'', PInt 10), (''column'', PInt 5),
      (''severity'', PStr ''error''), (''category'', PStr ''type-error''),
      (''code'', PStr ''E501'')] = Inl (KeyError ''message'') \<and>
   KeyError ''message'' \<noteq> ValueError source_msg"
  by (simp add: Issue_from_dict_def getitem_def Severity_call_def IssueCategory_call_def)

subsection \<open>Missing keys in from\_dict\<close>




subsection \<open>Assignment to the fields of an Issue\<close>




subsection \<open>Round trip through the dictionary form\<close>



subsection \<open>create\_backup\<close>



subsection \<open>is\_monorepo\<close>



end
